theory Spec2Isabelle
  imports Main "HOL-Library.AList"
begin

section \<open>Values, items and callbacks\<close>

text \<open>
  The development embeds \<^verbatim>\<open>src/idiokit/threado.py\<close>. Every Python object is a
  reference; object identity (\<^verbatim>\<open>is\<close>, \<^verbatim>\<open>object()\<close>, a new \<^verbatim>\<open>Callback\<close>) is a
  natural number taken from one allocation counter.
\<close>

type_synonym ref = nat

datatype pyclass =
    Finished | NotFinished | BrokenPipe | StopIteration
  | NotImplementedError | AttributeError | TypeError | ValueError
  | UserError nat
  | NoneType | IntType | StrType | TupleType | ObjectType | ClassType | TracebackType

datatype pyval =
    PNone
  | PInt int
  | PStr string
  | PTuple "pyval list"
  | PRef ref
  | PClass pyclass
  | PExc pyclass "pyval list"
  | PTraceback nat

text \<open>\<^verbatim>\<open>type(exc)\<close>, as \<^verbatim>\<open>Channel.throw\<close> computes it.\<close>

fun py_type :: "pyval \<Rightarrow> pyval" where
  "py_type PNone = PClass NoneType"
| "py_type (PInt i) = PClass IntType"
| "py_type (PStr s) = PClass StrType"
| "py_type (PTuple xs) = PClass TupleType"
| "py_type (PRef r) = PClass ObjectType"
| "py_type (PClass c) = PClass ClassType"
| "py_type (PExc c args) = PClass c"
| "py_type (PTraceback n) = PClass TracebackType"

fun peel_args :: "pyval list \<Rightarrow> pyval" where
  "peel_args [] = PNone"
| "peel_args [x] = x"
| "peel_args args = PTuple args"

text \<open>An item on the wire is the triple \<^verbatim>\<open>(final, throw, args)\<close>.\<close>

type_synonym item = "bool \<times> bool \<times> pyval list"

text \<open>
  The functions that the module wraps in a \<^verbatim>\<open>Callback\<close>: bound methods of a stream,
  the closure of \<^verbatim>\<open>Inner.sub\<close>, \<^verbatim>\<open>callqueue.add\<close> with a bound method as its first
  argument, and a function of the library's user, which the model only records.
\<close>

datatype bound_method = AnyCallbackM ref | StepM ref

datatype func =
    PipeCallback ref
  | StackCallback ref
  | PairCallback ref
  | LeftFinishCallback ref
  | RightFinishCallback ref
  | SubCallback ref ref
  | CallqueueAdd bound_method
  | External nat

type_synonym callback = "nat \<times> func"

text \<open>
  What a variable holding ``a callback handle'' can hold: \<^verbatim>\<open>None\<close>, the marker
  \<^verbatim>\<open>object()\<close> of \<^verbatim>\<open>_Pipeable._next_raw\<close>, or a \<^verbatim>\<open>Callback\<close>.
\<close>

datatype handle = HNone | HToken nat | HCallback callback

text \<open>The calls waiting in the call queue.\<close>

datatype thunk =
    AnyInit ref "pyval list"
  | AnyCallback ref ref
  | Begin ref
  | Step ref ref

section \<open>Generators\<close>

text \<open>
  The coroutine of a task is code of the library's user. It is a parameter of the model:
  resumed with a value or with a thrown exception it calls \<^verbatim>\<open>inner.send\<close> some number
  of times and then yields or raises.
\<close>

datatype resume = Send pyval | Throw "pyval list"

datatype gen = Gen "resume \<Rightarrow> gen_step"
and gen_step =
    Yield "pyval list list" pyval gen
  | Raises "pyval list list" pyval pyval

section \<open>The object store\<close>

datatype kind =
  Reg | Channel | Inner | GeneratorStream | PipePair | AnyStream | NullSource

text \<open>
  The store has one map per attribute, from the object to the attribute's value:
  \<open>queue w c\<close> is \<^verbatim>\<open>c.queue\<close> in the world \<open>w\<close>. \<open>kind\<close> is the class of an
  object. \<open>reg_id\<close> and \<open>reg_result\<close> are \<^verbatim>\<open>Reg._id\<close> and \<^verbatim>\<open>Reg._result\<close>;
  \<open>final\<close> is the \<^verbatim>\<open>final\<close> of a \<^verbatim>\<open>_Pipeable\<close> or a \<^verbatim>\<open>_Stackable\<close>;
  \<open>input\<close> is the \<^verbatim>\<open>input\<close> of a task or of a pipe pair; \<open>any_callbacks\<close>
  and \<open>any_final\<close> are \<^verbatim>\<open>Any._callbacks\<close> and \<^verbatim>\<open>Any._final\<close>. A \<^verbatim>\<open>set\<close> of
  callbacks is a list without duplicates in the order of insertion, a \<^verbatim>\<open>dict\<close> an
  association list, a \<^verbatim>\<open>deque\<close> a list with its left end first.

  \<open>fresh\<close> is the allocation counter. \<open>callqueue\<close> and \<open>event\<close> are the state of
  the call queue and of the \<^verbatim>\<open>threading.Event\<close> that \<^verbatim>\<open>run\<close> hands to it.
  \<open>calls\<close> records every invocation of a function of the user, with the callback it
  was wrapped in and the stream it was called with.
\<close>

record world =
  kind :: "ref \<Rightarrow> kind"
  reg_id :: "ref \<Rightarrow> nat option"
  reg_result :: "ref \<Rightarrow> (bool \<times> pyval list) option"
  message_callbacks :: "ref \<Rightarrow> callback list"
  finish_callbacks :: "ref \<Rightarrow> callback list"
  queue :: "ref \<Rightarrow> item list"
  pipes :: "ref \<Rightarrow> (ref \<times> handle) list"
  pipes_pending :: "ref \<Rightarrow> ref list"
  final :: "ref \<Rightarrow> item option"
  outer :: "ref \<Rightarrow> ref option"
  stack :: "ref \<Rightarrow> ref list"
  inner :: "ref \<Rightarrow> ref"
  gen :: "ref \<Rightarrow> gen option"
  started :: "ref \<Rightarrow> bool"
  input :: "ref \<Rightarrow> ref"
  "output" :: "ref \<Rightarrow> ref"
  left :: "ref \<Rightarrow> ref"
  right :: "ref \<Rightarrow> ref"
  left_has_result :: "ref \<Rightarrow> bool"
  right_has_result :: "ref \<Rightarrow> bool"
  any_callbacks :: "ref \<Rightarrow> (ref \<times> handle) list option"
  include_source :: "ref \<Rightarrow> bool"
  any_final :: "ref \<Rightarrow> item option"
  running_streams :: "ref list"
  fresh :: nat
  callqueue :: "thunk list"
  event :: bool
  calls :: "(callback \<times> ref) list"

text \<open>
  A call returns a value and the new world, or raises \<^verbatim>\<open>type, value, traceback\<close>, or
  does not return within the nesting allowed (\<open>Timeout\<close>).
\<close>

datatype 'a res = Ok 'a world | Raise pyval pyval pyval world | Timeout

definition thn :: "'a res \<Rightarrow> ('a \<Rightarrow> world \<Rightarrow> 'b res) \<Rightarrow> 'b res" where
  "thn m f = (case m of Ok x w \<Rightarrow> f x w | Raise t e tb w \<Rightarrow> Raise t e tb w | Timeout \<Rightarrow> Timeout)"

text \<open>\<^verbatim>\<open>raise C()\<close>; the traceback object made at the raise is \<open>PTraceback 0\<close>.\<close>

definition raise :: "pyclass \<Rightarrow> pyval list \<Rightarrow> world \<Rightarrow> 'a res" where
  "raise c args w = Raise (PClass c) (PExc c args) (PTraceback 0) w"

text \<open>
  Calls whose target is found at run time (a callback, a method of another stream, the
  next round of a \<^verbatim>\<open>while True\<close> loop) go through a table of the semantics one level
  of nesting further down; \<open>sem_at\<close> below ties the knot, and \<open>Timeout\<close> is what the
  bottom level returns.
\<close>

record sem =
  d_call :: "callback \<Rightarrow> ref \<Rightarrow> world \<Rightarrow> unit res"
  d_next_raw :: "ref \<Rightarrow> world \<Rightarrow> item option res"
  d_loop :: "ref \<Rightarrow> world \<Rightarrow> item option res"
  d_next_is_final :: "ref \<Rightarrow> world \<Rightarrow> bool res"
  d_send :: "ref \<Rightarrow> pyval list \<Rightarrow> world \<Rightarrow> unit res"
  d_throw :: "ref \<Rightarrow> pyval \<Rightarrow> pyval \<Rightarrow> world \<Rightarrow> unit res"
  d_pipe :: "ref \<Rightarrow> ref \<Rightarrow> world \<Rightarrow> unit res"
  d_pipe_broken :: "ref \<Rightarrow> world \<Rightarrow> unit res"
  d_iterate :: "world \<Rightarrow> unit res"
  d_run_loop :: "ref \<Rightarrow> world \<Rightarrow> unit res"
  d_wait :: "ref \<Rightarrow> world \<Rightarrow> unit res"

section \<open>Reg\<close>

text \<open>\<^verbatim>\<open>Reg.__init__\<close> on a newly allocated object of class \<open>k\<close>.\<close>

definition new_object :: "kind \<Rightarrow> world \<Rightarrow> ref \<times> world" where
  "new_object k w =
     (let s = fresh w in
      (s, w\<lparr>fresh := Suc s,
             kind := (kind w)(s := k),
             message_callbacks := (message_callbacks w)(s := []),
             finish_callbacks := (finish_callbacks w)(s := []),
             reg_id := (reg_id w)(s := None),
             reg_result := (reg_result w)(s := None)\<rparr>))"

primrec call_all :: "sem \<Rightarrow> callback list \<Rightarrow> ref \<Rightarrow> world \<Rightarrow> unit res" where
  "call_all d [] s w = Ok () w"
| "call_all d (callback # callbacks) s w =
     thn (d_call d callback s w) (\<lambda>_. call_all d callbacks s)"

definition signal_activity ::
  "sem \<Rightarrow> ref \<Rightarrow> (bool \<times> pyval list) option \<Rightarrow> world \<Rightarrow> unit res" where
  "signal_activity d s result w =
     (let callbacks = message_callbacks w s;
          w1 = w\<lparr>reg_result := (reg_result w)(s := result),
                 reg_id := (reg_id w)(s := Some (fresh w)),
                 fresh := Suc (fresh w),
                 message_callbacks := (message_callbacks w)(s := [])\<rparr>
      in thn (call_all d callbacks s w1) (\<lambda>_ w2.
           if result \<noteq> None
           then call_all d (finish_callbacks w2 s) s
                  (w2\<lparr>finish_callbacks := (finish_callbacks w2)(s := [])\<rparr>)
           else Ok () w2))"

definition add_message_callback :: "sem \<Rightarrow> ref \<Rightarrow> func \<Rightarrow> world \<Rightarrow> handle res" where
  "add_message_callback d s f w =
     (let callback = (fresh w, f);
          w1 = w\<lparr>fresh := Suc (fresh w)\<rparr>
      in if reg_id w1 s = None
         then Ok (HCallback callback)
                (w1\<lparr>message_callbacks :=
                     (message_callbacks w1)(s := message_callbacks w1 s @ [callback])\<rparr>)
         else thn (d_call d callback s w1) (\<lambda>_. Ok HNone))"

definition discard_message_callback :: "ref \<Rightarrow> handle \<Rightarrow> world \<Rightarrow> world" where
  "discard_message_callback s h w =
     (case h of
        HCallback callback \<Rightarrow>
          w\<lparr>message_callbacks :=
              (message_callbacks w)(s := removeAll callback (message_callbacks w s))\<rparr>
      | _ \<Rightarrow> w)"

definition add_finish_callback :: "sem \<Rightarrow> ref \<Rightarrow> func \<Rightarrow> world \<Rightarrow> handle res" where
  "add_finish_callback d s f w =
     (let callback = (fresh w, f);
          w1 = w\<lparr>fresh := Suc (fresh w)\<rparr>
      in if reg_result w1 s = None
         then Ok (HCallback callback)
                (w1\<lparr>finish_callbacks :=
                     (finish_callbacks w1)(s := finish_callbacks w1 s @ [callback])\<rparr>)
         else thn (d_call d callback s w1) (\<lambda>_. Ok HNone))"

definition discard_finish_callback :: "ref \<Rightarrow> handle \<Rightarrow> world \<Rightarrow> world" where
  "discard_finish_callback s h w =
     (case h of
        HCallback callback \<Rightarrow>
          w\<lparr>finish_callbacks :=
              (finish_callbacks w)(s := removeAll callback (finish_callbacks w s))\<rparr>
      | _ \<Rightarrow> w)"

definition has_result :: "ref \<Rightarrow> world \<Rightarrow> bool" where
  "has_result s w = (reg_result w s \<noteq> None)"

definition result_raw :: "ref \<Rightarrow> world \<Rightarrow> (bool \<times> pyval list) res" where
  "result_raw s w =
     (case reg_result w s of None \<Rightarrow> raise NotFinished [] w | Some r \<Rightarrow> Ok r w)"

section \<open>Channel\<close>

definition new_channel :: "world \<Rightarrow> ref \<times> world" where
  "new_channel w =
     (let (c, w1) = new_object Channel w in (c, w1\<lparr>queue := (queue w1)(c := [])\<rparr>))"

definition push :: "sem \<Rightarrow> ref \<Rightarrow> bool \<Rightarrow> bool \<Rightarrow> pyval list \<Rightarrow> world \<Rightarrow> unit res" where
  "push d c fin thr args w =
     (if queue w c \<noteq> [] \<and> fst (last (queue w c)) then Ok () w
      else
        let w1 = w\<lparr>queue := (queue w)(c := queue w c @ [(fin, thr, args)])\<rparr> in
        if fin then signal_activity d c (Some (thr, args)) w1
        else if length (queue w1 c) = 1 then signal_activity d c None w1
        else Ok () w1)"

definition channel_send :: "sem \<Rightarrow> ref \<Rightarrow> pyval list \<Rightarrow> world \<Rightarrow> unit res" where
  "channel_send d c values w = push d c False False values w"

definition channel_throw :: "sem \<Rightarrow> ref \<Rightarrow> pyval \<Rightarrow> pyval \<Rightarrow> world \<Rightarrow> unit res" where
  "channel_throw d c exc tb w = push d c True True [py_type exc, exc, tb] w"

definition channel_finish :: "sem \<Rightarrow> ref \<Rightarrow> pyval list \<Rightarrow> world \<Rightarrow> unit res" where
  "channel_finish d c args w = push d c True False args w"

definition channel_next_is_final :: "ref \<Rightarrow> world \<Rightarrow> bool" where
  "channel_next_is_final c w = (queue w c \<noteq> [] \<and> fst (hd (queue w c)))"

definition channel_next_raw :: "ref \<Rightarrow> world \<Rightarrow> item option res" where
  "channel_next_raw c w =
     (case queue w c of
        [] \<Rightarrow> Ok None w
      | (fin, thr, args) # rest \<Rightarrow>
          Ok (Some (fin, thr, args))
            (w\<lparr>queue := (queue w)(c := (if fin then rest @ [(fin, thr, args)] else rest))\<rparr>))"

section \<open>The call queue\<close>

text \<open>
  Modelled from the spec: the module \<^verbatim>\<open>callqueue\<close> is imported by the source and is not
  part of it. \<^verbatim>\<open>add\<close> appends a call to a first-in first-out queue and invokes the
  wake-up function, which in \<^verbatim>\<open>run\<close> is \<^verbatim>\<open>event.set\<close>.
\<close>

definition callqueue_add :: "thunk \<Rightarrow> world \<Rightarrow> world" where
  "callqueue_add th w = w\<lparr>callqueue := callqueue w @ [th], event := True\<rparr>"

section \<open>The pipe-set: \<^verbatim>\<open>_Pipeable\<close>\<close>

text \<open>\<^verbatim>\<open>Inner(outer)\<close>, the only class of pipe-sets that the module instantiates.\<close>

definition new_inner :: "ref option \<Rightarrow> world \<Rightarrow> ref \<times> world" where
  "new_inner out w =
     (let (p, w1) = new_object Inner w in
      (p, w1\<lparr>pipes := (pipes w1)(p := []),
              pipes_pending := (pipes_pending w1)(p := []),
              final := (final w1)(p := None),
              outer := (outer w1)(p := out)\<rparr>))"

definition pipe_callback :: "sem \<Rightarrow> ref \<Rightarrow> ref \<Rightarrow> world \<Rightarrow> unit res" where
  "pipe_callback d p other w =
     (if map_of (pipes w p) other = None then Ok () w
      else
        let w1 = w\<lparr>pipes := (pipes w)(p := AList.update other HNone (pipes w p)),
                   pipes_pending := (pipes_pending w)(p := pipes_pending w p @ [other])\<rparr>
        in if length (pipes_pending w1 p) > 1 then Ok () w1
           else signal_activity d p None w1)"

definition pipeable_finish :: "sem \<Rightarrow> ref \<Rightarrow> bool \<Rightarrow> pyval list \<Rightarrow> world \<Rightarrow> unit res" where
  "pipeable_finish d p thr args w =
     (if final w p \<noteq> None then Ok () w
      else
        let w1 = w\<lparr>final := (final w)(p := Some (True, thr, args)),
                   pipes_pending := (pipes_pending w)(p := []),
                   pipes := (pipes w)(p := [])\<rparr>;
            w2 = fold (\<lambda>(other, callback). discard_message_callback other callback)
                   (pipes w p) w1
        in signal_activity d p (Some (thr, args)) w2)"

definition pipeable_pipe :: "sem \<Rightarrow> ref \<Rightarrow> ref \<Rightarrow> world \<Rightarrow> unit res" where
  "pipeable_pipe d p other w =
     (if final w p \<noteq> None then Ok () w
      else if map_of (pipes w p) other \<noteq> None then Ok () w
      else
        let w1 = w\<lparr>pipes := (pipes w)(p := AList.update other HNone (pipes w p)),
                   pipes_pending := (pipes_pending w)(p := pipes_pending w p @ [other])\<rparr>
        in if length (pipes_pending w1 p) > 1 then Ok () w1
           else signal_activity d p None w1)"

definition pipeable_next_raw :: "sem \<Rightarrow> ref \<Rightarrow> world \<Rightarrow> item option res" where
  "pipeable_next_raw d p w =
     (case final w p of
        Some f \<Rightarrow> Ok (Some f) w
      | None \<Rightarrow>
         (case pipes_pending w p of
            [] \<Rightarrow> Ok None w
          | other # rest \<Rightarrow>
              thn (d_next_raw d other (w\<lparr>pipes_pending := (pipes_pending w)(p := rest)\<rparr>))
                (\<lambda>item w2.
                  case item of
                    None \<Rightarrow>
                      let token = fresh w2;
                          w3 = w2\<lparr>fresh := Suc token,
                                  pipes := (pipes w2)(p := AList.update other (HToken token) (pipes w2 p))\<rparr>
                      in thn (add_message_callback d other (PipeCallback p) w3)
                           (\<lambda>callback w4.
                              if map_of (pipes w4 p) other = Some (HToken token)
                              then d_loop d p
                                     (w4\<lparr>pipes := (pipes w4)(p := AList.update other callback (pipes w4 p))\<rparr>)
                              else d_loop d p (discard_message_callback other callback w4))
                  | Some (fin, thr, args) \<Rightarrow>
                      if fin then
                        let callback = (case map_of (pipes w2 p) other of
                                          None \<Rightarrow> HNone | Some h \<Rightarrow> h);
                            w3 = w2\<lparr>pipes := (pipes w2)(p := AList.delete other (pipes w2 p))\<rparr>;
                            w4 = discard_message_callback other callback w3
                        in if \<not> thr
                           then Ok (Some (False, True,
                                     [PClass Finished, PExc Finished args, PNone])) w4
                           else Ok (Some (False, thr, args)) w4
                      else
                        Ok (Some (False, thr, args))
                          (w2\<lparr>pipes_pending :=
                                (pipes_pending w2)(p := pipes_pending w2 p @ [other])\<rparr>))))"

section \<open>The stack: \<^verbatim>\<open>_Stackable\<close>\<close>

text \<open>\<^verbatim>\<open>if self.stack and other is self.stack[0]: self.stack.popleft()\<close>\<close>

definition pop_if_head :: "ref \<Rightarrow> ref \<Rightarrow> world \<Rightarrow> world" where
  "pop_if_head t other w =
     (case stack w t of
        [] \<Rightarrow> w
      | x # xs \<Rightarrow> if x = other then w\<lparr>stack := (stack w)(t := xs)\<rparr> else w)"

definition stackable_next_is_final :: "sem \<Rightarrow> ref \<Rightarrow> world \<Rightarrow> bool res" where
  "stackable_next_is_final d t w =
     (case stack w t of
        [] \<Rightarrow> Ok (final w t \<noteq> None) w
      | other # _ \<Rightarrow>
          thn (d_next_is_final d other w) (\<lambda>b w1.
            if \<not> b then Ok False w1
            else d_next_is_final d t (pop_if_head t other w1)))"

definition stack_callback :: "sem \<Rightarrow> ref \<Rightarrow> ref \<Rightarrow> world \<Rightarrow> unit res" where
  "stack_callback d t other w =
     (if final w t \<noteq> None then Ok () w
      else if stack w t = [] then Ok () w
      else if other \<noteq> hd (stack w t) then Ok () w
      else signal_activity d t None w)"

definition stackable_stack :: "sem \<Rightarrow> ref \<Rightarrow> ref \<Rightarrow> world \<Rightarrow> unit res" where
  "stackable_stack d t other w =
     (if final w t \<noteq> None then Ok () w
      else
        thn (stackable_next_is_final d t (w\<lparr>stack := (stack w)(t := stack w t @ [other])\<rparr>))
          (\<lambda>_. signal_activity d t None))"

definition stackable_finish :: "sem \<Rightarrow> ref \<Rightarrow> bool \<Rightarrow> pyval list \<Rightarrow> world \<Rightarrow> unit res" where
  "stackable_finish d t thr args w =
     (if final w t \<noteq> None then Ok () w
      else
        thn (stackable_next_is_final d t (w\<lparr>final := (final w)(t := Some (True, thr, args))\<rparr>))
          (\<lambda>_. signal_activity d t (Some (thr, args))))"

definition stackable_next_raw :: "sem \<Rightarrow> ref \<Rightarrow> world \<Rightarrow> item option res" where
  "stackable_next_raw d t w =
     (case stack w t of
        [] \<Rightarrow> Ok (final w t) w
      | other # _ \<Rightarrow>
          thn (d_next_raw d other w) (\<lambda>item w1.
            case item of
              None \<Rightarrow> thn (add_message_callback d other (StackCallback t) w1) (\<lambda>_. Ok None)
            | Some (fin, thr, args) \<Rightarrow>
                if \<not> fin then Ok (Some (fin, thr, args)) w1
                else d_loop d t (pop_if_head t other w1)))"

section \<open>Tasks: \<^verbatim>\<open>Inner\<close> and \<^verbatim>\<open>GeneratorStream\<close>\<close>

text \<open>The module-level \<^verbatim>\<open>null_source = NullSource()\<close> is the first object allocated.\<close>

definition null_source :: ref where
  "null_source = 0"

definition inner_send :: "sem \<Rightarrow> ref \<Rightarrow> pyval list \<Rightarrow> world \<Rightarrow> unit res" where
  "inner_send d t args w = channel_send d (output w t) args w"

definition inner_finish :: "sem \<Rightarrow> ref \<Rightarrow> bool \<Rightarrow> pyval list \<Rightarrow> world \<Rightarrow> unit res" where
  "inner_finish d t thr args w =
     thn (stackable_finish d t thr args w) (\<lambda>_ w1.
       if thr then
         (case args of
            [type, exc, tb] \<Rightarrow> channel_throw d (output w1 t) exc tb w1
          | _ \<Rightarrow> raise ValueError [] w1)
       else channel_finish d (output w1 t) args w1)"

definition inner_sub :: "sem \<Rightarrow> ref \<Rightarrow> ref \<Rightarrow> world \<Rightarrow> unit res" where
  "inner_sub d t other w =
     (let old_output = output w t;
          (c, w1) = new_channel w;
          w2 = w1\<lparr>output := (output w1)(t := c)\<rparr>
      in thn (channel_finish d old_output [] w2) (\<lambda>_ w3.
         thn (stackable_stack d t other w3) (\<lambda>_ w4.
           stackable_stack d t (output w4 t) w4)))"

text \<open>\<^verbatim>\<open>Inner.send\<close>, \<^verbatim>\<open>Inner.finish\<close>, \<^verbatim>\<open>Inner._finish\<close> and \<^verbatim>\<open>Inner.sub\<close>.\<close>

definition Inner_send :: "sem \<Rightarrow> ref \<Rightarrow> pyval list \<Rightarrow> world \<Rightarrow> unit res" where
  "Inner_send d i values w =
     (case outer w i of None \<Rightarrow> Ok () w | Some t \<Rightarrow> inner_send d t values w)"

definition Inner_finish :: "ref \<Rightarrow> pyval list \<Rightarrow> world \<Rightarrow> unit res" where
  "Inner_finish i values w = raise Finished values w"

definition Inner_private_finish ::
  "sem \<Rightarrow> ref \<Rightarrow> bool \<Rightarrow> pyval list \<Rightarrow> world \<Rightarrow> unit res" where
  "Inner_private_finish d i thr args w =
     thn (pipeable_finish d i thr args w) (\<lambda>_ w1.
       case outer w1 i of
         None \<Rightarrow> Ok () w1
       | Some t \<Rightarrow>
           thn (inner_finish d t thr args w1) (\<lambda>_ w2.
             Ok () (w2\<lparr>outer := (outer w2)(i := None)\<rparr>)))"

definition sub_callback :: "sem \<Rightarrow> ref \<Rightarrow> ref \<Rightarrow> world \<Rightarrow> unit res" where
  "sub_callback d other channel w =
     thn (result_raw other w) (\<lambda>(thr, args) w1.
       if thr then
         (case args of
            [type, exc, tb] \<Rightarrow> channel_throw d channel exc tb w1
          | _ \<Rightarrow> raise ValueError [] w1)
       else channel_finish d channel args w1)"

definition Inner_sub :: "sem \<Rightarrow> ref \<Rightarrow> ref \<Rightarrow> world \<Rightarrow> ref res" where
  "Inner_sub d i other w =
     (let (channel, w1) = new_channel w in
      thn (d_pipe d other i w1) (\<lambda>_ w2.
      thn (add_finish_callback d other (SubCallback other channel) w2) (\<lambda>_ w3.
      thn (case outer w3 i of None \<Rightarrow> Ok () w3 | Some t \<Rightarrow> inner_sub d t other w3)
        (\<lambda>_. Ok channel))))"

text \<open>\<^verbatim>\<open>GeneratorStream.__init__\<close>\<close>

definition generator_stream_init :: "sem \<Rightarrow> world \<Rightarrow> ref res" where
  "generator_stream_init d w =
     (let (t, w1) = new_object GeneratorStream w;
          w2 = w1\<lparr>stack := (stack w1)(t := []), final := (final w1)(t := None)\<rparr>;
          (i, w3) = new_inner (Some t) w2;
          w4 = w3\<lparr>inner := (inner w3)(t := i),
                  gen := (gen w3)(t := None),
                  started := (started w3)(t := False)\<rparr>;
          (cin, w5) = new_channel w4;
          (cout, w6) = new_channel w5;
          w7 = w6\<lparr>input := (input w6)(t := cin), output := (output w6)(t := cout)\<rparr>
      in thn (pipeable_pipe d i cin w7) (\<lambda>_ w8.
         thn (stackable_stack d t cout w8) (\<lambda>_. Ok t)))"

text \<open>
  \<^verbatim>\<open>start\<close>, for a \<^verbatim>\<open>FuncStream\<close> whose \<^verbatim>\<open>run\<close> calls the user's generator function
  with the task's \<^verbatim>\<open>inner\<close>: \<open>func\<close> maps the reference of \<^verbatim>\<open>inner\<close> to the generator.
\<close>

definition start :: "(ref \<Rightarrow> gen) \<Rightarrow> ref \<Rightarrow> world \<Rightarrow> world" where
  "start func t w =
     (if started w t then w
      else callqueue_add (Begin t)
             (w\<lparr>started := (started w)(t := True),
                gen := (gen w)(t := Some (func (inner w t)))\<rparr>))"

text \<open>\<^verbatim>\<open>FuncStream(func)\<close>, which is what the decorator \<^verbatim>\<open>stream\<close> returns a factory of.\<close>

definition stream :: "sem \<Rightarrow> (ref \<Rightarrow> gen) \<Rightarrow> world \<Rightarrow> ref res" where
  "stream d func w = thn (generator_stream_init d w) (\<lambda>t w1. Ok t (start func t w1))"

text \<open>\<^verbatim>\<open>GeneratorStream._end\<close>\<close>

definition task_end :: "sem \<Rightarrow> ref \<Rightarrow> bool \<Rightarrow> pyval list \<Rightarrow> world \<Rightarrow> unit res" where
  "task_end d t thr args w =
     Inner_private_finish d (inner w t) thr args
       (w\<lparr>gen := (gen w)(t := None),
          running_streams := removeAll t (running_streams w)\<rparr>)"

primrec send_all :: "sem \<Rightarrow> ref \<Rightarrow> pyval list list \<Rightarrow> world \<Rightarrow> unit res" where
  "send_all d i [] w = Ok () w"
| "send_all d i (values # rest) w = thn (Inner_send d i values w) (\<lambda>_. send_all d i rest)"

text \<open>
  \<^verbatim>\<open>self._gen.send(value)\<close> and \<^verbatim>\<open>self._gen.throw(*args)\<close>: the value yielded, or the
  exception that leaves the generator.
\<close>

definition resume_gen :: "sem \<Rightarrow> ref \<Rightarrow> resume \<Rightarrow> world \<Rightarrow> pyval res" where
  "resume_gen d t r w =
     (case gen w t of
        None \<Rightarrow> raise AttributeError [] w
      | Some (Gen g) \<Rightarrow>
          if (case r of Send v \<Rightarrow> False | Throw args \<Rightarrow> length args = 0 \<or> 3 < length args)
          then raise TypeError [] w
          else
            (case g r of
               Yield sends nxt g' \<Rightarrow>
                 thn (send_all d (inner w t) sends w) (\<lambda>_ w1.
                   Ok nxt (w1\<lparr>gen := (gen w1)(t := Some g')\<rparr>))
             | Raises sends exc tb \<Rightarrow>
                 thn (send_all d (inner w t) sends w) (\<lambda>_ w1.
                   Raise (py_type exc) exc tb w1)))"

fun exc_args :: "pyval \<Rightarrow> pyval list" where
  "exc_args (PExc c args) = args"
| "exc_args v = []"

text \<open>\<^verbatim>\<open>Any.__init__\<close>; the \<^verbatim>\<open>set\<close> of the sources is iterated in the order of the arguments.\<close>

definition new_any :: "bool \<Rightarrow> pyval \<Rightarrow> pyval list \<Rightarrow> world \<Rightarrow> ref \<times> world" where
  "new_any inc first rest w =
     (let (a, w1) = new_object AnyStream w;
          w2 = w1\<lparr>any_callbacks := (any_callbacks w1)(a := Some []),
                  include_source := (include_source w1)(a := inc),
                  any_final := (any_final w1)(a := None)\<rparr>
      in (a, callqueue_add (AnyInit a (remdups (first # rest))) w2))"

text \<open>\<^verbatim>\<open>GeneratorStream._step\<close>\<close>

definition step :: "sem \<Rightarrow> ref \<Rightarrow> ref \<Rightarrow> world \<Rightarrow> unit res" where
  "step d t source w =
     thn (d_next_raw d source w) (\<lambda>item w1.
       case item of
         None \<Rightarrow>
           thn (add_message_callback d source (CallqueueAdd (StepM t)) w1) (\<lambda>_. Ok ())
       | Some (fin, thr, args) \<Rightarrow>
          (case resume_gen d t (if thr then Throw args else Send (peel_args args)) w1 of
             Timeout \<Rightarrow> Timeout
           | Raise type exc tb w2 \<Rightarrow>
               if type = PClass StopIteration \<or> type = PClass Finished
               then task_end d t False (exc_args exc) w2
               else task_end d t True [type, exc, tb] w2
           | Ok nxt w2 \<Rightarrow>
              (case nxt of
                 PNone \<Rightarrow>
                   thn (add_message_callback d null_source (CallqueueAdd (StepM t)) w2)
                     (\<lambda>_. Ok ())
               | PRef r \<Rightarrow>
                   thn (add_message_callback d r (CallqueueAdd (StepM t)) w2) (\<lambda>_. Ok ())
               | PTuple (first # rest) \<Rightarrow>
                   (let (a, w3) = new_any False first rest w2 in
                    thn (add_message_callback d a (CallqueueAdd (StepM t)) w3) (\<lambda>_. Ok ()))
               | _ \<Rightarrow> raise TypeError [] w2)))"

text \<open>\<^verbatim>\<open>GeneratorStream._begin\<close>\<close>

definition task_begin :: "sem \<Rightarrow> ref \<Rightarrow> world \<Rightarrow> unit res" where
  "task_begin d t w =
     step d t null_source
       (w\<lparr>running_streams := (if t \<in> set (running_streams w) then running_streams w
                               else running_streams w @ [t])\<rparr>)"

section \<open>PipePair\<close>

text \<open>\<^verbatim>\<open>PipePair.__init__\<close>\<close>

definition pipe_pair :: "sem \<Rightarrow> ref \<Rightarrow> ref \<Rightarrow> world \<Rightarrow> ref res" where
  "pipe_pair d l r w =
     (let (p, w1) = new_object PipePair w;
          w2 = w1\<lparr>left := (left w1)(p := l),
                  right := (right w1)(p := r),
                  left_has_result := (left_has_result w1)(p := False),
                  right_has_result := (right_has_result w1)(p := False)\<rparr>;
          (c, w3) = new_channel w2;
          w4 = w3\<lparr>input := (input w3)(p := c)\<rparr>
      in thn (d_pipe d l c w4) (\<lambda>_ w5.
         thn (d_pipe d r l w5) (\<lambda>_ w6.
         thn (add_finish_callback d l (LeftFinishCallback p) w6) (\<lambda>_ w7.
         thn (add_finish_callback d r (RightFinishCallback p) w7) (\<lambda>_ w8.
         thn (add_message_callback d r (PairCallback p) w8) (\<lambda>_. Ok p))))))"

definition pair_finish :: "sem \<Rightarrow> ref \<Rightarrow> world \<Rightarrow> unit res" where
  "pair_finish d p w =
     thn (result_raw (right w p) w) (\<lambda>result. signal_activity d p (Some result))"

definition left_finish_callback :: "sem \<Rightarrow> ref \<Rightarrow> world \<Rightarrow> unit res" where
  "left_finish_callback d p w =
     (let w1 = w\<lparr>left_has_result := (left_has_result w)(p := True)\<rparr> in
      if \<not> right_has_result w1 p then Ok () w1 else pair_finish d p w1)"

definition right_finish_callback :: "sem \<Rightarrow> ref \<Rightarrow> world \<Rightarrow> unit res" where
  "right_finish_callback d p w =
     thn (d_pipe_broken d (left w p) w) (\<lambda>_ w1.
       let w2 = w1\<lparr>right_has_result := (right_has_result w1)(p := True)\<rparr> in
       if \<not> left_has_result w2 p then Ok () w2 else pair_finish d p w2)"

definition pair_callback :: "sem \<Rightarrow> ref \<Rightarrow> world \<Rightarrow> unit res" where
  "pair_callback d p w = signal_activity d p None w"

definition pair_next_raw :: "sem \<Rightarrow> ref \<Rightarrow> world \<Rightarrow> item option res" where
  "pair_next_raw d p w =
     thn (d_next_raw d (right w p) w) (\<lambda>item w1.
       case item of
         None \<Rightarrow>
           thn (add_message_callback d (right w1 p) (PairCallback p) w1) (\<lambda>_. Ok None)
       | Some (fin, thr, args) \<Rightarrow>
           if fin \<and> \<not> left_has_result w1 p then Ok None w1
           else Ok (Some (fin, thr, args)) w1)"

section \<open>Any\<close>

text \<open>The function \<^verbatim>\<open>any(first, *rest)\<close>.\<close>

definition any :: "pyval \<Rightarrow> pyval list \<Rightarrow> world \<Rightarrow> ref \<times> world" where
  "any first rest w = new_any True first rest w"

text \<open>\<^verbatim>\<open>Any._init\<close>\<close>

primrec any_init :: "sem \<Rightarrow> ref \<Rightarrow> pyval list \<Rightarrow> world \<Rightarrow> unit res" where
  "any_init d a [] w = Ok () w"
| "any_init d a (source # sources) w =
     (case source of
        PRef s \<Rightarrow>
          thn (add_message_callback d s (CallqueueAdd (AnyCallbackM a)) w) (\<lambda>h w1.
            case any_callbacks w1 a of
              None \<Rightarrow> raise TypeError [] w1
            | Some callbacks \<Rightarrow>
                any_init d a sources
                  (w1\<lparr>any_callbacks := (any_callbacks w1)(a := Some (AList.update s h callbacks))\<rparr>))
      | _ \<Rightarrow> raise AttributeError [] w)"

text \<open>
  The loop of \<^verbatim>\<open>Any._callback\<close> over \<^verbatim>\<open>callbacks.iteritems()\<close>, which discards the
  callbacks of the streams other than \<open>source\<close>.
\<close>

definition discard_others :: "ref \<Rightarrow> (ref \<times> handle) list \<Rightarrow> world \<Rightarrow> world" where
  "discard_others source callbacks w =
     fold (\<lambda>(other, callback) w'.
             if other \<noteq> source then discard_message_callback other callback w' else w')
       callbacks w"

text \<open>\<^verbatim>\<open>Any._callback\<close>\<close>

definition any_callback :: "sem \<Rightarrow> ref \<Rightarrow> ref \<Rightarrow> world \<Rightarrow> unit res" where
  "any_callback d a source w =
     (if any_callbacks w a = None then Ok () w
      else
        thn (d_next_raw d source w) (\<lambda>item w1.
          case item of
            None \<Rightarrow>
              thn (add_message_callback d source (CallqueueAdd (AnyCallbackM a)) w1) (\<lambda>h w2.
                case any_callbacks w2 a of
                  None \<Rightarrow> raise TypeError [] w2
                | Some callbacks \<Rightarrow>
                    Ok () (w2\<lparr>any_callbacks :=
                               (any_callbacks w2)(a := Some (AList.update source h callbacks))\<rparr>))
          | Some (fin, thr, args) \<Rightarrow>
             (case any_callbacks w1 a of
                None \<Rightarrow> raise AttributeError [] w1
              | Some callbacks \<Rightarrow>
                  let w2 = w1\<lparr>any_callbacks := (any_callbacks w1)(a := None)\<rparr>;
                      w3 = discard_others source callbacks w2;
                      args' = (if \<not> thr \<and> include_source w3 a
                               then [PRef source, peel_args args] else args);
                      w4 = w3\<lparr>any_final := (any_final w3)(a := Some (True, thr, args'))\<rparr>
                  in signal_activity d a (Some (thr, args')) w4)))"

section \<open>Methods found by the class of the object\<close>

text \<open>\<^verbatim>\<open>Callback.call\<close> with the stream as the one extra argument.\<close>

definition call :: "sem \<Rightarrow> callback \<Rightarrow> ref \<Rightarrow> world \<Rightarrow> unit res" where
  "call d callback s w =
     (case snd callback of
        PipeCallback p \<Rightarrow> pipe_callback d p s w
      | StackCallback t \<Rightarrow> stack_callback d t s w
      | PairCallback p \<Rightarrow> pair_callback d p w
      | LeftFinishCallback p \<Rightarrow> left_finish_callback d p w
      | RightFinishCallback p \<Rightarrow> right_finish_callback d p w
      | SubCallback other channel \<Rightarrow> sub_callback d other channel w
      | CallqueueAdd m \<Rightarrow>
          Ok () (callqueue_add (case m of AnyCallbackM a \<Rightarrow> AnyCallback a s
                                | StepM t \<Rightarrow> Step t s) w)
      | External k \<Rightarrow> Ok () (w\<lparr>calls := calls w @ [(callback, s)]\<rparr>))"

text \<open>\<^verbatim>\<open>self._next_raw()\<close>\<close>

definition raw :: "sem \<Rightarrow> ref \<Rightarrow> world \<Rightarrow> item option res" where
  "raw d s w =
     (case kind w s of
        Reg \<Rightarrow> raise NotImplementedError [] w
      | Channel \<Rightarrow> channel_next_raw s w
      | Inner \<Rightarrow> pipeable_next_raw d s w
      | GeneratorStream \<Rightarrow> stackable_next_raw d s w
      | PipePair \<Rightarrow> pair_next_raw d s w
      | AnyStream \<Rightarrow> Ok (any_final w s) w
      | NullSource \<Rightarrow> Ok (Some (False, False, [])) w)"

text \<open>\<^verbatim>\<open>Reg.next_raw\<close>\<close>

definition next_raw :: "sem \<Rightarrow> ref \<Rightarrow> world \<Rightarrow> item option res" where
  "next_raw d s w =
     (case reg_id w s of
        None \<Rightarrow> Ok None w
      | Some i \<Rightarrow>
          thn (raw d s w) (\<lambda>item w1.
            case item of
              None \<Rightarrow>
                Ok None (if reg_id w1 s = Some i
                         then w1\<lparr>reg_id := (reg_id w1)(s := None)\<rparr> else w1)
            | Some (fin, thr, args) \<Rightarrow>
                if fin then
                  let w2 = w1\<lparr>reg_result := (reg_result w1)(s := Some (thr, args))\<rparr> in
                  Ok (Some (fin, thr, args))
                    (if reg_id w2 s = None
                     then w2\<lparr>reg_id := (reg_id w2)(s := Some (fresh w2)),
                             fresh := Suc (fresh w2)\<rparr>
                     else w2)
                else Ok (Some (fin, thr, args)) w1))"

definition next_is_final :: "sem \<Rightarrow> ref \<Rightarrow> world \<Rightarrow> bool res" where
  "next_is_final d s w =
     (case kind w s of
        Reg \<Rightarrow> raise NotImplementedError [] w
      | Channel \<Rightarrow> Ok (channel_next_is_final s w) w
      | Inner \<Rightarrow> Ok (final w s \<noteq> None) w
      | GeneratorStream \<Rightarrow> stackable_next_is_final d s w
      | PipePair \<Rightarrow> d_next_is_final d (right w s) w
      | AnyStream \<Rightarrow> Ok (any_final w s \<noteq> None) w
      | NullSource \<Rightarrow> raise NotImplementedError [] w)"

definition send :: "sem \<Rightarrow> ref \<Rightarrow> pyval list \<Rightarrow> world \<Rightarrow> unit res" where
  "send d s values w =
     (case kind w s of
        Channel \<Rightarrow> channel_send d s values w
      | Inner \<Rightarrow> Inner_send d s values w
      | GeneratorStream \<Rightarrow> d_send d (input w s) values w
      | PipePair \<Rightarrow> d_send d (input w s) values w
      | AnyStream \<Rightarrow>
          raise NotImplementedError [PStr ''send not allowed for this stream''] w
      | _ \<Rightarrow> Ok () w)"

definition throw :: "sem \<Rightarrow> ref \<Rightarrow> pyval \<Rightarrow> pyval \<Rightarrow> world \<Rightarrow> unit res" where
  "throw d s exc tb w =
     (case kind w s of
        Channel \<Rightarrow> channel_throw d s exc tb w
      | GeneratorStream \<Rightarrow> d_throw d (input w s) exc tb w
      | PipePair \<Rightarrow> d_throw d (input w s) exc tb w
      | AnyStream \<Rightarrow>
          raise NotImplementedError [PStr ''throwing not allowed for this stream''] w
      | _ \<Rightarrow> Ok () w)"

definition pipe_method :: "sem \<Rightarrow> ref \<Rightarrow> ref \<Rightarrow> world \<Rightarrow> unit res" where
  "pipe_method d s other w =
     (case kind w s of
        GeneratorStream \<Rightarrow> pipeable_pipe d (inner w s) other w
      | PipePair \<Rightarrow> d_pipe d (left w s) other w
      | AnyStream \<Rightarrow>
          raise NotImplementedError [PStr ''piping not allowed for this stream''] w
      | _ \<Rightarrow> raise NotImplementedError [PStr ''this stream is not pipeable''] w)"

definition pipe_broken :: "sem \<Rightarrow> ref \<Rightarrow> world \<Rightarrow> unit res" where
  "pipe_broken d s w =
     (case kind w s of
        GeneratorStream \<Rightarrow> d_throw d s (PExc BrokenPipe []) PNone w
      | PipePair \<Rightarrow> d_pipe_broken d (right w s) w
      | _ \<Rightarrow> raise AttributeError [] w)"

section \<open>The dispatcher: \<^verbatim>\<open>run\<close>\<close>

definition run_thunk :: "sem \<Rightarrow> thunk \<Rightarrow> world \<Rightarrow> unit res" where
  "run_thunk d th w =
     (case th of
        AnyInit a sources \<Rightarrow> any_init d a sources w
      | AnyCallback a s \<Rightarrow> any_callback d a s w
      | Begin t \<Rightarrow> task_begin d t w
      | Step t s \<Rightarrow> step d t s w)"

text \<open>
  Modelled from the spec: \<^verbatim>\<open>callqueue.exclusive\<close> is not part of the source. The
  \<^verbatim>\<open>iterate\<close> it yields drains the queue on the calling thread, first in first out;
  a call that raises ends the dispatcher with that failure.
\<close>

definition iterate :: "sem \<Rightarrow> world \<Rightarrow> unit res" where
  "iterate d w =
     (case callqueue w of
        [] \<Rightarrow> Ok () w
      | th # rest \<Rightarrow> thn (run_thunk d th (w\<lparr>callqueue := rest\<rparr>)) (\<lambda>_. d_iterate d))"

text \<open>
  The inner loop of \<^verbatim>\<open>run\<close>,
  \<^verbatim>\<open>while not (main.has_result() or event.isSet()): event.wait(0.5)\<close>. No other thread
  is modelled, so a wait that starts with neither condition true never ends.
\<close>

definition wait :: "sem \<Rightarrow> ref \<Rightarrow> world \<Rightarrow> unit res" where
  "wait d main w = (if has_result main w \<or> event w then Ok () w else d_wait d main w)"

definition run_loop :: "sem \<Rightarrow> ref \<Rightarrow> world \<Rightarrow> unit res" where
  "run_loop d main w =
     (if has_result main w then Ok () w
      else
        thn (iterate d w) (\<lambda>_ w1.
        thn (wait d main w1) (\<lambda>_ w2.
          d_run_loop d main (w2\<lparr>event := False\<rparr>))))"

text \<open>
  \<^verbatim>\<open>run(main)\<close> with \<^verbatim>\<open>throw_on_signal\<close> left at \<^verbatim>\<open>None\<close>: no signal handler is
  installed, and the \<^verbatim>\<open>finally\<close> clause does nothing.
\<close>

definition run :: "sem \<Rightarrow> ref \<Rightarrow> world \<Rightarrow> pyval res" where
  "run d main w =
     thn (run_loop d main (w\<lparr>event := False\<rparr>)) (\<lambda>_ w1.
     thn (result_raw main w1) (\<lambda>(thr, args) w2.
       if thr then
         (case args of
            [type, exc, tb] \<Rightarrow> Raise type exc tb w2
          | _ \<Rightarrow> raise ValueError [] w2)
       else Ok (peel_args args) w2))"

section \<open>Tying the knot\<close>

primrec sem_at :: "nat \<Rightarrow> sem" where
  "sem_at 0 =
     \<lparr>d_call = (\<lambda>callback s w. Timeout),
      d_next_raw = (\<lambda>s w. Timeout),
      d_loop = (\<lambda>s w. Timeout),
      d_next_is_final = (\<lambda>s w. Timeout),
      d_send = (\<lambda>s values w. Timeout),
      d_throw = (\<lambda>s exc tb w. Timeout),
      d_pipe = (\<lambda>s other w. Timeout),
      d_pipe_broken = (\<lambda>s w. Timeout),
      d_iterate = (\<lambda>w. Timeout),
      d_run_loop = (\<lambda>main w. Timeout),
      d_wait = (\<lambda>main w. Timeout)\<rparr>"
| "sem_at (Suc n) =
     \<lparr>d_call = call (sem_at n),
      d_next_raw = next_raw (sem_at n),
      d_loop = raw (sem_at n),
      d_next_is_final = next_is_final (sem_at n),
      d_send = send (sem_at n),
      d_throw = throw (sem_at n),
      d_pipe = pipe_method (sem_at n),
      d_pipe_broken = pipe_broken (sem_at n),
      d_iterate = iterate (sem_at n),
      d_run_loop = run_loop (sem_at n),
      d_wait = wait (sem_at n)\<rparr>"

text \<open>
  The world after the module is imported: \<^verbatim>\<open>null_source = NullSource()\<close> has run, so
  object \<open>0\<close> is the null source and has signalled activity once.
\<close>

definition init_world :: world where
  "init_world =
     \<lparr>kind = (\<lambda>s. Reg)(0 := NullSource),
      reg_id = (\<lambda>s. None)(0 := Some 1),
      reg_result = (\<lambda>s. None),
      message_callbacks = (\<lambda>s. []),
      finish_callbacks = (\<lambda>s. []),
      queue = (\<lambda>s. []),
      pipes = (\<lambda>s. []),
      pipes_pending = (\<lambda>s. []),
      final = (\<lambda>s. None),
      outer = (\<lambda>s. None),
      stack = (\<lambda>s. []),
      inner = (\<lambda>s. 0),
      gen = (\<lambda>s. None),
      started = (\<lambda>s. False),
      input = (\<lambda>s. 0),
      output = (\<lambda>s. 0),
      left = (\<lambda>s. 0),
      right = (\<lambda>s. 0),
      left_has_result = (\<lambda>s. False),
      right_has_result = (\<lambda>s. False),
      any_callbacks = (\<lambda>s. None),
      include_source = (\<lambda>s. False),
      any_final = (\<lambda>s. None),
      running_streams = [],
      fresh = 2,
      callqueue = [],
      event = False,
      calls = []\<rparr>"

section \<open>Readers, user callbacks and worlds used in the properties\<close>

text \<open>A reader that calls \<^verbatim>\<open>next_raw\<close> \<open>n\<close> times and keeps what it was given.\<close>

primrec reads :: "sem \<Rightarrow> ref \<Rightarrow> nat \<Rightarrow> world \<Rightarrow> item option list res" where
  "reads d s 0 w = Ok [] w"
| "reads d s (Suc n) w =
     thn (next_raw d s w) (\<lambda>item w1. thn (reads d s n w1) (\<lambda>items. Ok (item # items)))"

text \<open>No item of a channel's queue but the last is terminal.\<close>

definition chan_ok :: "item list \<Rightarrow> bool" where
  "chan_ok q = list_all (\<lambda>item. \<not> fst item) (butlast q)"

definition is_external :: "callback \<Rightarrow> bool" where
  "is_external callback = (case snd callback of External k \<Rightarrow> True | _ \<Rightarrow> False)"

text \<open>The callbacks registered on \<open>s\<close> are functions of the library's user.\<close>

definition user_callbacks_only :: "ref \<Rightarrow> world \<Rightarrow> bool" where
  "user_callbacks_only s w =
     (list_all is_external (message_callbacks w s) \<and>
      list_all is_external (finish_callbacks w s))"

text \<open>Every callback registered on \<open>s\<close> or called so far was allocated before \<open>fresh w\<close>.\<close>

definition handles_allocated :: "ref \<Rightarrow> world \<Rightarrow> bool" where
  "handles_allocated s w =
     (list_all (\<lambda>c. fst c < fresh w) (message_callbacks w s) \<and>
      list_all (\<lambda>c. fst c < fresh w) (finish_callbacks w s) \<and>
      list_all (\<lambda>e. fst (fst e) < fresh w) (calls w))"

text \<open>\<^verbatim>\<open>ch = Channel()\<close> after the import of the module: the channel is object \<open>2\<close>.\<close>

definition fresh_channel :: world where
  "fresh_channel = snd (new_channel init_world)"

text \<open>The same after \<^verbatim>\<open>ch.finish()\<close>, and after \<^verbatim>\<open>ch.send(5)\<close>.\<close>

definition finished_channel :: world where
  "finished_channel =
     (case channel_finish (sem_at 0) 2 [] fresh_channel of Ok u w \<Rightarrow> w | _ \<Rightarrow> init_world)"

definition sent_channel :: world where
  "sent_channel =
     (case channel_send (sem_at 0) 2 [PInt 5] fresh_channel of Ok u w \<Rightarrow> w | _ \<Rightarrow> init_world)"

text \<open>What a call returned, and the world it left, when it returned.\<close>

definition value_of :: "'a res \<Rightarrow> 'a option" where
  "value_of r = (case r of Ok x w \<Rightarrow> Some x | Raise t e tb w \<Rightarrow> None | Timeout \<Rightarrow> None)"

definition world_of :: "'a res \<Rightarrow> world option" where
  "world_of r = (case r of Ok x w \<Rightarrow> Some w | Raise t e tb w \<Rightarrow> None | Timeout \<Rightarrow> None)"

text \<open>
  The events at a pipe-set: an upstream channel sends, or the reader calls \<^verbatim>\<open>next_raw\<close>
  on the pipe-set.
\<close>

datatype event = SendTo ref "pyval list" | Read

primrec play :: "sem \<Rightarrow> ref \<Rightarrow> event list \<Rightarrow> world \<Rightarrow> item option list res" where
  "play d p [] w = Ok [] w"
| "play d p (e # es) w =
     (case e of
        SendTo c values \<Rightarrow> thn (channel_send d c values w) (\<lambda>_. play d p es)
      | Read \<Rightarrow>
          thn (next_raw d p w) (\<lambda>item w1. thn (play d p es w1) (\<lambda>items. Ok (item # items))))"

text \<open>A pipe-set owned by no task, and two new channels piped into it.\<close>

definition fan_in :: "sem \<Rightarrow> world \<Rightarrow> (ref \<times> ref \<times> ref) res" where
  "fan_in d w =
     (let (p, w1) = new_inner None w;
          (a, w2) = new_channel w1;
          (b, w3) = new_channel w2
      in thn (pipeable_pipe d p a w3) (\<lambda>_ w4.
         thn (pipeable_pipe d p b w4) (\<lambda>_. Ok (p, a, b))))"

definition fan_in_run :: "sem \<Rightarrow> event list \<Rightarrow> item option list res" where
  "fan_in_run d events = thn (fan_in d init_world) (\<lambda>(p, a, b). play d p events)"

text \<open>
  A pipe-set (object \<open>2\<close>) with the channels \<open>3\<close> and \<open>4\<close> piped into it, in this
  order, after channel \<open>3\<close> finished with \<open>7\<close>.
\<close>

definition fan_in_finished :: world where
  "fan_in_finished =
     (case thn (fan_in (sem_at 3) init_world) (\<lambda>_ w.
           channel_finish (sem_at 3) 3 [PInt 7] w)
      of Ok x w \<Rightarrow> w | _ \<Rightarrow> init_world)"

definition is_deferred :: "callback \<Rightarrow> bool" where
  "is_deferred callback =
     (case snd callback of External k \<Rightarrow> True | CallqueueAdd m \<Rightarrow> True | _ \<Rightarrow> False)"

definition deferred_callbacks_only :: "ref \<Rightarrow> world \<Rightarrow> bool" where
  "deferred_callbacks_only s w =
     (list_all is_deferred (message_callbacks w s) \<and>
      list_all is_deferred (finish_callbacks w s))"

text \<open>
  What calling such callbacks with the stream \<open>s\<close> does: it appends to the call queue
  and sets the event, or appends to the log of calls.
\<close>

primrec defer_all :: "callback list \<Rightarrow> ref \<Rightarrow> world \<Rightarrow> world" where
  "defer_all [] s w = w"
| "defer_all (callback # callbacks) s w =
     defer_all callbacks s
       (case snd callback of
          CallqueueAdd m \<Rightarrow>
            callqueue_add (case m of AnyCallbackM a \<Rightarrow> AnyCallback a s
                           | StepM t \<Rightarrow> Step t s) w
        | External k \<Rightarrow> w\<lparr>calls := calls w @ [(callback, s)]\<rparr>
        | _ \<Rightarrow> w)"

definition same_objects :: "world \<Rightarrow> world \<Rightarrow> bool" where
  "same_objects w w' =
     (w' = w\<lparr>callqueue := callqueue w', event := event w', calls := calls w'\<rparr>)"



text \<open>
  \<^verbatim>\<open>s1 = Channel(); s2 = Channel(); s2.send(42); a = any(s1, s2)\<close> after the import of
  the module: \<open>s1\<close> is object \<open>2\<close>, \<open>s2\<close> is \<open>3\<close> and \<open>a\<close> is \<open>5\<close>. \<open>any_armed\<close>
  is the world after the dispatcher has run \<^verbatim>\<open>a._init\<close> and taken the next call,
  \<^verbatim>\<open>a._callback(s2)\<close>, from the queue.
\<close>

definition any_created :: world where
  "any_created =
     (let (s1, w1) = new_channel init_world;
          (s2, w2) = new_channel w1
      in case channel_send (sem_at 1) s2 [PInt 42] w2 of
           Ok u w3 \<Rightarrow> snd (any (PRef s1) [PRef s2] w3)
         | _ \<Rightarrow> init_world)"

definition any_armed :: world where
  "any_armed =
     (case any_init (sem_at 1) 5 [PRef 2, PRef 3] (any_created\<lparr>callqueue := []\<rparr>) of
        Ok u w \<Rightarrow> w\<lparr>callqueue := []\<rparr>
      | _ \<Rightarrow> init_world)"

text \<open>\<^verbatim>\<open>ch = Channel(); ch.throw(exc)\<close> with an exception of a class of the user.\<close>

definition thrown_channel :: world where
  "thrown_channel =
     (case channel_throw (sem_at 0) 2 (PExc (UserError 1) [PInt 9]) (PTraceback 5) fresh_channel
      of Ok u w \<Rightarrow> w | _ \<Rightarrow> init_world)"

section \<open>The table of the semantics\<close>

declare sem_at.simps [simp del]

lemma sem_at_Suc [simp]:
  "d_call (sem_at (Suc n)) = call (sem_at n)"
  "d_next_raw (sem_at (Suc n)) = next_raw (sem_at n)"
  "d_loop (sem_at (Suc n)) = raw (sem_at n)"
  "d_next_is_final (sem_at (Suc n)) = next_is_final (sem_at n)"
  "d_send (sem_at (Suc n)) = send (sem_at n)"
  "d_throw (sem_at (Suc n)) = throw (sem_at n)"
  "d_pipe (sem_at (Suc n)) = pipe_method (sem_at n)"
  "d_pipe_broken (sem_at (Suc n)) = pipe_broken (sem_at n)"
  "d_iterate (sem_at (Suc n)) = iterate (sem_at n)"
  "d_run_loop (sem_at (Suc n)) = run_loop (sem_at n)"
  "d_wait (sem_at (Suc n)) = wait (sem_at n)"
  by (simp_all add: sem_at.simps)

lemma sem_at_numeral [simp]:
  "d_call (sem_at (numeral k)) = call (sem_at (pred_numeral k))"
  "d_next_raw (sem_at (numeral k)) = next_raw (sem_at (pred_numeral k))"
  "d_loop (sem_at (numeral k)) = raw (sem_at (pred_numeral k))"
  "d_next_is_final (sem_at (numeral k)) = next_is_final (sem_at (pred_numeral k))"
  "d_send (sem_at (numeral k)) = send (sem_at (pred_numeral k))"
  "d_throw (sem_at (numeral k)) = throw (sem_at (pred_numeral k))"
  "d_pipe (sem_at (numeral k)) = pipe_method (sem_at (pred_numeral k))"
  "d_pipe_broken (sem_at (numeral k)) = pipe_broken (sem_at (pred_numeral k))"
  "d_iterate (sem_at (numeral k)) = iterate (sem_at (pred_numeral k))"
  "d_run_loop (sem_at (numeral k)) = run_loop (sem_at (pred_numeral k))"
  "d_wait (sem_at (numeral k)) = wait (sem_at (pred_numeral k))"
  by (simp_all add: numeral_eq_Suc)

lemma sem_at_0 [simp]:
  "d_call (sem_at 0) = (\<lambda>callback s w. Timeout)"
  "d_next_raw (sem_at 0) = (\<lambda>s w. Timeout)"
  "d_loop (sem_at 0) = (\<lambda>s w. Timeout)"
  "d_next_is_final (sem_at 0) = (\<lambda>s w. Timeout)"
  "d_send (sem_at 0) = (\<lambda>s values w. Timeout)"
  "d_throw (sem_at 0) = (\<lambda>s exc tb w. Timeout)"
  "d_pipe (sem_at 0) = (\<lambda>s other w. Timeout)"
  "d_pipe_broken (sem_at 0) = (\<lambda>s w. Timeout)"
  "d_iterate (sem_at 0) = (\<lambda>w. Timeout)"
  "d_run_loop (sem_at 0) = (\<lambda>main w. Timeout)"
  "d_wait (sem_at 0) = (\<lambda>main w. Timeout)"
  by (simp_all add: sem_at.simps)

text \<open>
  A call sequence is evaluated from its first call on: what follows a call is looked at
  only once the call has returned.
\<close>

lemma thn_simps [simp]:
  "thn (Ok x w) f = f x w"
  "thn (Raise t e tb w) f = Raise t e tb w"
  "thn Timeout f = Timeout"
  by (simp_all add: thn_def)

lemma thn_weak_cong [cong]: "m = m' \<Longrightarrow> thn m f = thn m' f"
  by simp

lemma has_result_case:
  "has_result s w = (case reg_result w s of None \<Rightarrow> False | Some r \<Rightarrow> True)"
  by (simp add: has_result_def split: option.splits)

named_theorems sem_defs

lemmas [sem_defs] =
  raise_def new_object_def signal_activity_def add_message_callback_def
  discard_message_callback_def add_finish_callback_def discard_finish_callback_def
  has_result_case result_raw_def new_channel_def push_def channel_send_def
  channel_throw_def channel_finish_def channel_next_is_final_def channel_next_raw_def
  callqueue_add_def new_inner_def pipe_callback_def pipeable_finish_def pipeable_pipe_def
  pipeable_next_raw_def pop_if_head_def stackable_next_is_final_def stack_callback_def
  stackable_stack_def stackable_finish_def stackable_next_raw_def null_source_def
  inner_send_def inner_finish_def inner_sub_def Inner_send_def Inner_finish_def
  Inner_private_finish_def sub_callback_def Inner_sub_def generator_stream_init_def
  start_def stream_def task_end_def resume_gen_def new_any_def step_def task_begin_def
  pipe_pair_def pair_finish_def left_finish_callback_def right_finish_callback_def
  pair_callback_def pair_next_raw_def any_def discard_others_def any_callback_def call_def raw_def
  next_raw_def next_is_final_def send_def throw_def pipe_method_def pipe_broken_def
  run_thunk_def iterate_def wait_def run_loop_def run_def

lemma finished_channel_eq:
  "finished_channel =
     init_world\<lparr>fresh := 4, kind := (kind init_world)(2 := Channel),
       reg_id := (reg_id init_world)(2 := Some 3),
       reg_result := (reg_result init_world)(2 := Some (False, [])),
       queue := (queue init_world)(2 := [(True, False, [])])\<rparr>"
  by (simp add: finished_channel_def fresh_channel_def sem_defs init_world_def Let_def
        fun_upd_idem_iff)

lemma sent_channel_eq:
  "sent_channel =
     init_world\<lparr>fresh := 4, kind := (kind init_world)(2 := Channel),
       reg_id := (reg_id init_world)(2 := Some 3),
       queue := (queue init_world)(2 := [(False, False, [PInt 5])])\<rparr>"
  by (simp add: sent_channel_def fresh_channel_def sem_defs init_world_def Let_def
        fun_upd_idem_iff)

section \<open>Callbacks of the user\<close>

lemma call_all_external:
  "list_all is_external cbs \<Longrightarrow>
   call_all (sem_at (Suc n)) cbs s w = Ok () (w\<lparr>calls := calls w @ map (\<lambda>cb. (cb, s)) cbs\<rparr>)"
proof (induction cbs arbitrary: w)
  case Nil
  show ?case by simp
next
  case (Cons cb cbs)
  from Cons.prems have "is_external cb" and rest: "list_all is_external cbs" by simp_all
  then have "call (sem_at n) cb s w = Ok () (w\<lparr>calls := calls w @ [(cb, s)]\<rparr>)"
    by (simp add: call_def is_external_def split: func.splits)
  with Cons.IH [OF rest] show ?case by (simp add: thn_def)
qed

lemma signal_activity_external:
  assumes "list_all is_external (message_callbacks w s)"
    and "list_all is_external (finish_callbacks w s)"
  shows "signal_activity (sem_at (Suc n)) s r w =
     Ok () (w\<lparr>reg_result := (reg_result w)(s := r),
              reg_id := (reg_id w)(s := Some (fresh w)),
              fresh := Suc (fresh w),
              message_callbacks := (message_callbacks w)(s := []),
              finish_callbacks :=
                (finish_callbacks w)(s := (if r = None then finish_callbacks w s else [])),
              calls := calls w @ map (\<lambda>cb. (cb, s)) (message_callbacks w s)
                 @ (if r = None then [] else map (\<lambda>cb. (cb, s)) (finish_callbacks w s))\<rparr>)"
  using assms
  by (cases r) (simp_all add: signal_activity_def call_all_external thn_def Let_def)

lemma count_calls_map:
  "count_list (map (\<lambda>c. (c, s)) cbs) (cb, s) = count_list cbs cb"
  by (induction cbs) auto

lemma count_list_fresh:
  "\<forall>c \<in> set cbs. fst c < (m::nat) \<Longrightarrow> count_list cbs (m, f) = 0"
  by (induction cbs) auto

lemma count_calls_fresh:
  "\<forall>e \<in> set cs. fst (fst e) < (m::nat) \<Longrightarrow> count_list cs ((m, f), s) = 0"
  by (induction cs) auto

section \<open>Reg: the latched result\<close>

lemma next_raw_keeps_result:
  assumes "has_result s w" and "raw d s w = Ok item w1" and "has_result s w1"
  shows "\<exists>item' w2. next_raw d s w = Ok item' w2 \<and> has_result s w2"
proof (cases "reg_id w s")
  case None
  with assms(1) show ?thesis by (simp add: next_raw_def)
next
  case (Some i)
  with assms(2,3) show ?thesis
    by (cases item) (auto simp add: next_raw_def thn_def has_result_def Let_def)
qed

lemma channel_raw_keeps_result:
  "kind w s = Channel \<Longrightarrow> has_result s w \<Longrightarrow>
   \<exists>item w1. raw d s w = Ok item w1 \<and> has_result s w1"
  by (cases "queue w s")
     (auto simp add: raw_def channel_next_raw_def has_result_def)

text \<open>
  C1, as the code has it. Once \<^verbatim>\<open>_result\<close> is set, \<^verbatim>\<open>has_result()\<close> stays true under
  \<^verbatim>\<open>signal_activity\<close> with a result, under the registration and the discarding of
  callbacks, and under \<^verbatim>\<open>next_raw\<close> (whose own assignments never clear the result: it
  is kept whenever the \<^verbatim>\<open>_next_raw\<close> of the class keeps it, as a channel's does). But
  \<^verbatim>\<open>signal_activity\<close> assigns its argument to \<^verbatim>\<open>_result\<close> unconditionally, so a call
  with a null result resets it and \<^verbatim>\<open>has_result()\<close> is false afterwards. The callbacks
  registered on the stream are functions of the user, at any nesting depth \<open>Suc n\<close>.
\<close>

theorem latched_result_kept:
  assumes r: "has_result s w" and u: "user_callbacks_only s w"
  shows "(\<exists>w'. signal_activity (sem_at (Suc n)) s (Some res) w = Ok () w' \<and> has_result s w') \<and>
         (\<exists>h w'. add_message_callback (sem_at (Suc n)) s (External k) w = Ok h w'
                  \<and> has_result s w') \<and>
         (\<exists>h w'. add_finish_callback (sem_at (Suc n)) s (External k) w = Ok h w'
                  \<and> has_result s w') \<and>
         has_result s (discard_message_callback s' h w) \<and>
         has_result s (discard_finish_callback s' h w) \<and>
         (raw d s w = Ok item w1 \<longrightarrow> has_result s w1 \<longrightarrow>
            (\<exists>item' w2. next_raw d s w = Ok item' w2 \<and> has_result s w2)) \<and>
         (kind w s = Channel \<longrightarrow> (\<exists>item' w2. next_raw d s w = Ok item' w2 \<and> has_result s w2)) \<and>
         (\<exists>w'. signal_activity (sem_at (Suc n)) s None w = Ok () w' \<and> \<not> has_result s w')"
proof -
  from u have um: "list_all is_external (message_callbacks w s)"
    and uf: "list_all is_external (finish_callbacks w s)"
    by (simp_all add: user_callbacks_only_def)
  have 1: "\<exists>w'. signal_activity (sem_at (Suc n)) s (Some res) w = Ok () w' \<and> has_result s w'"
    using um uf by (simp add: signal_activity_external has_result_def)
  have 2: "\<exists>h w'. add_message_callback (sem_at (Suc n)) s (External k) w = Ok h w'
                  \<and> has_result s w'"
    using r by (simp add: add_message_callback_def call_def thn_def has_result_def Let_def)
  have 3: "\<exists>h w'. add_finish_callback (sem_at (Suc n)) s (External k) w = Ok h w'
                  \<and> has_result s w'"
    using r by (simp add: add_finish_callback_def call_def thn_def has_result_def Let_def)
  have 4: "has_result s (discard_message_callback s' h w)"
    and 5: "has_result s (discard_finish_callback s' h w)"
    using r by (cases h; simp add: discard_message_callback_def discard_finish_callback_def
          has_result_def)+
  have 6: "raw d s w = Ok item w1 \<longrightarrow> has_result s w1 \<longrightarrow>
            (\<exists>item' w2. next_raw d s w = Ok item' w2 \<and> has_result s w2)"
    using next_raw_keeps_result [OF r] by blast
  have 7: "kind w s = Channel \<longrightarrow> (\<exists>item' w2. next_raw d s w = Ok item' w2 \<and> has_result s w2)"
    using channel_raw_keeps_result [OF _ r] next_raw_keeps_result [OF r] by blast
  have 8: "\<exists>w'. signal_activity (sem_at (Suc n)) s None w = Ok () w' \<and> \<not> has_result s w'"
    using um uf by (simp add: signal_activity_external has_result_def)
  from 1 2 3 4 5 6 7 8 show ?thesis by blast
qed

theorem latched_result_kept_witness:
  "has_result 2 finished_channel \<and> user_callbacks_only 2 finished_channel \<and>
   kind finished_channel 2 = Channel \<and>
   (\<exists>w'. signal_activity (sem_at 1) 2 (Some (True, [])) finished_channel = Ok () w'
          \<and> has_result 2 w') \<and>
   (\<exists>item' w2. next_raw (sem_at 1) 2 finished_channel = Ok item' w2 \<and> has_result 2 w2) \<and>
   (\<exists>w'. signal_activity (sem_at 1) 2 None finished_channel = Ok () w' \<and> \<not> has_result 2 w')"
proof -
  have r: "has_result 2 finished_channel"
    and u: "user_callbacks_only 2 finished_channel"
    and k: "kind finished_channel 2 = Channel"
    by (simp_all add: finished_channel_eq init_world_def has_result_def
          user_callbacks_only_def)
  from latched_result_kept [OF r u, of 0 "(True, [])" 0 2 HNone "sem_at 1" None init_world] r u k
  show ?thesis unfolding One_nat_def by blast
qed

text \<open>
  C1, as the spec states it, fails: on a channel that \<^verbatim>\<open>finish()\<close> has closed,
  \<^verbatim>\<open>has_result()\<close> is true, and after \<^verbatim>\<open>signal_activity()\<close> with the default null
  result it is false.
\<close>

theorem latched_result_cleared:
  "world_of (channel_finish (sem_at 1) 2 [] fresh_channel) = Some finished_channel \<and>
   has_result 2 finished_channel \<and>
   map_option (has_result 2) (world_of (signal_activity (sem_at 1) 2 None finished_channel))
     = Some False"
  by (simp add: world_of_def finished_channel_def sem_defs fresh_channel_def init_world_def
        Let_def)

section \<open>Reg: message callbacks\<close>



section \<open>Channel\<close>

lemma reads_terminal:
  "kind w c = Channel \<Longrightarrow> queue w c = [(True, thr, args)] \<Longrightarrow> reg_id w c \<noteq> None \<Longrightarrow>
   reg_result w c = Some (thr, args) \<Longrightarrow>
   reads d c n w = Ok (replicate n (Some (True, thr, args))) w"
proof (induction n)
  case 0
  then show ?case by simp
next
  case (Suc n)
  have "w\<lparr>queue := (queue w)(c := [(True, thr, args)]),
          reg_result := (reg_result w)(c := Some (thr, args))\<rparr> = w"
    using Suc.prems by (simp add: fun_upd_idem)
  with Suc.prems have nr: "next_raw d c w = Ok (Some (True, thr, args)) w"
    by (auto simp add: next_raw_def raw_def channel_next_raw_def thn_def Let_def)
  with Suc show ?case by (simp add: thn_def)
qed

lemma push_after_terminal:
  assumes "chan_ok (queue w c)" and "list_ex fst (queue w c)"
  shows "push d c fin thr args w = Ok () w"
proof (cases "queue w c" rule: rev_cases)
  case Nil
  with assms(2) show ?thesis by simp
next
  case (snoc ys y)
  with assms have "fst y"
    by (auto simp add: chan_ok_def list_all_iff list_ex_iff)
  with snoc show ?thesis by (simp add: push_def)
qed

text \<open>
  The queue of a new channel has no terminal item before its last, and \<^verbatim>\<open>_push\<close> and
  \<^verbatim>\<open>_next_raw\<close> keep it so.
\<close>

lemma chan_ok_new: "chan_ok (queue (snd (new_channel w)) (fst (new_channel w)))"
  by (simp add: new_channel_def new_object_def chan_ok_def Let_def)

lemma chan_ok_snoc: "chan_ok q \<Longrightarrow> \<not> (q \<noteq> [] \<and> fst (last q)) \<Longrightarrow> chan_ok (q @ [item])"
  by (cases q rule: rev_cases) (auto simp add: chan_ok_def butlast_append)

lemma chan_ok_next_raw:
  "chan_ok (queue w c) \<Longrightarrow> channel_next_raw c w = Ok item w' \<Longrightarrow> chan_ok (queue w' c)"
  by (cases "queue w c"; cases "tl (queue w c)" rule: rev_cases)
     (auto simp add: channel_next_raw_def chan_ok_def split: if_splits)

text \<open>
  C5. For any world and any table of the callbacks (a new channel has none registered):
  after \<^verbatim>\<open>ch = Channel(); ch.send(1); ch.send(2); ch.finish()\<close>, \<open>3 + n\<close> calls of
  \<^verbatim>\<open>next_raw\<close> return \<open>(False, False, (1,))\<close>, \<open>(False, False, (2,))\<close>,
  \<open>(True, False, ())\<close> and then \<open>n\<close> times the terminal item again. And in any world in
  which the queue of a channel holds a terminal item (which then is its last, by
  \<open>chan_ok\<close>), \<^verbatim>\<open>send\<close>, \<^verbatim>\<open>finish\<close> and \<^verbatim>\<open>throw\<close> return without any change.
\<close>

theorem channel_echo_and_closed:
  "(\<exists>w'. (let (c, w0) = new_channel w in
      thn (channel_send d c [PInt 1] w0) (\<lambda>_ w1.
      thn (channel_send d c [PInt 2] w1) (\<lambda>_ w2.
      thn (channel_finish d c [] w2) (\<lambda>_ w3.
      reads d c (3 + n) w3)))) =
    Ok ([Some (False, False, [PInt 1]), Some (False, False, [PInt 2]), Some (True, False, [])]
        @ replicate n (Some (True, False, []))) w') \<and>
   (chan_ok (queue v c) \<and> list_ex fst (queue v c) \<longrightarrow>
      channel_send d c values v = Ok () v \<and>
      channel_finish d c args v = Ok () v \<and>
      channel_throw d c exc tb v = Ok () v)"
proof -
  have three: "3 + n = Suc (Suc (Suc n))" by simp
  have echo: "\<exists>w'. (let (c, w0) = new_channel w in
      thn (channel_send d c [PInt 1] w0) (\<lambda>_ w1.
      thn (channel_send d c [PInt 2] w1) (\<lambda>_ w2.
      thn (channel_finish d c [] w2) (\<lambda>_ w3.
      reads d c (3 + n) w3)))) =
    Ok ([Some (False, False, [PInt 1]), Some (False, False, [PInt 2]), Some (True, False, [])]
        @ replicate n (Some (True, False, []))) w'"
    unfolding three
    by (simp add: new_channel_def new_object_def channel_send_def channel_finish_def push_def
       signal_activity_def thn_def Let_def next_raw_def raw_def channel_next_raw_def
       reads_terminal [where thr = False and args = "[]"])
  have closed: "chan_ok (queue v c) \<and> list_ex fst (queue v c) \<longrightarrow>
      channel_send d c values v = Ok () v \<and>
      channel_finish d c args v = Ok () v \<and>
      channel_throw d c exc tb v = Ok () v"
    by (simp add: channel_send_def channel_finish_def channel_throw_def push_after_terminal)
  from echo closed show ?thesis by blast
qed

theorem channel_echo_and_closed_witness:
  "(\<exists>w'. (let (c, w0) = new_channel init_world in
      thn (channel_send (sem_at 1) c [PInt 1] w0) (\<lambda>_ w1.
      thn (channel_send (sem_at 1) c [PInt 2] w1) (\<lambda>_ w2.
      thn (channel_finish (sem_at 1) c [] w2) (\<lambda>_ w3.
      reads (sem_at 1) c (3 + 2) w3)))) =
    Ok ([Some (False, False, [PInt 1]), Some (False, False, [PInt 2]), Some (True, False, [])]
        @ replicate 2 (Some (True, False, []))) w') \<and>
   chan_ok (queue finished_channel 2) \<and> list_ex fst (queue finished_channel 2) \<and>
   channel_send (sem_at 1) 2 [PInt 3] finished_channel = Ok () finished_channel \<and>
   channel_finish (sem_at 1) 2 [] finished_channel = Ok () finished_channel \<and>
   channel_throw (sem_at 1) 2 (PExc (UserError 0) []) PNone finished_channel
     = Ok () finished_channel"
proof -
  have q: "chan_ok (queue finished_channel 2)" "list_ex fst (queue finished_channel 2)"
    by (simp_all add: finished_channel_eq chan_ok_def)
  from channel_echo_and_closed [of init_world "sem_at 1" 2 finished_channel 2 "[PInt 3]" "[]"
      "PExc (UserError 0) []" PNone] q
  show ?thesis by blast
qed

section \<open>The pipe-set\<close>

lemma fan_in_refs: "value_of (fan_in (sem_at (Suc n)) init_world) = Some (2, 3, 4)"
  by (simp add: value_of_def fan_in_def sem_defs init_world_def Let_def)

text \<open>
  C3. In any world and for any table of the semantics: when \<^verbatim>\<open>_next_raw\<close> of a pipe-set
  that is not finished takes the upstream \<open>other\<close> from the head of the pending queue
  and \<^verbatim>\<open>other.next_raw()\<close> returns an item with \<open>final = True\<close>, then \<^verbatim>\<open>_next_raw\<close>
  returns an item with \<open>final = False\<close> and \<open>throw = True\<close>, whose arguments are the
  failure's when the terminal was a failure and \<open>(Finished, Finished(*args), None)\<close>
  when it was a success; \<open>other\<close> is removed from the mapping, the callback the mapping
  held for it is no longer registered on \<open>other\<close>, \<open>other\<close> is not put back into the
  pending queue, and neither \<^verbatim>\<open>final\<close> nor \<^verbatim>\<open>_result\<close> of the pipe-set changes;
  \<^verbatim>\<open>next_raw\<close> of the pipe-set returns the same item and latches nothing.
\<close>

theorem pipe_set_rewrites_terminal:
  assumes "final w p = None" and "pipes_pending w p = other # rest"
    and "d_next_raw d other (w\<lparr>pipes_pending := (pipes_pending w)(p := rest)\<rparr>)
           = Ok (Some (True, thr, args)) w2"
  shows "\<exists>w4. pipeable_next_raw d p w
            = Ok (Some (False, True,
                 if thr then args else [PClass Finished, PExc Finished args, PNone])) w4 \<and>
          map_of (pipes w4 p) other = None \<and>
          (\<forall>callback. map_of (pipes w2 p) other = Some (HCallback callback) \<longrightarrow>
              callback \<notin> set (message_callbacks w4 other)) \<and>
          pipes_pending w4 p = pipes_pending w2 p \<and>
          final w4 p = final w2 p \<and>
          reg_result w4 p = reg_result w2 p \<and>
          (kind w p = Inner \<longrightarrow> reg_id w p \<noteq> None \<longrightarrow>
             next_raw d p w
               = Ok (Some (False, True,
                   if thr then args else [PClass Finished, PExc Finished args, PNone])) w4)"
  using assms
  by (cases "map_of (pipes w2 p) other")
     (auto simp add: pipeable_next_raw_def thn_def Let_def discard_message_callback_def
        next_raw_def raw_def AList.delete_eq map_of_eq_None_iff image_iff
        split: handle.splits)


lemma fan_in_finished_eq:
  "fan_in_finished =
     init_world\<lparr>fresh := 7,
       kind := (kind init_world)(2 := Inner, 3 := Channel, 4 := Channel),
       reg_id := (reg_id init_world)(2 := Some 5, 3 := Some 6),
       reg_result := (reg_result init_world)(3 := Some (False, [PInt 7])),
       queue := (queue init_world)(3 := [(True, False, [PInt 7])]),
       pipes := (pipes init_world)(2 := [(3, HNone), (4, HNone)]),
       pipes_pending := (pipes_pending init_world)(2 := [3, 4])\<rparr>"
  by (simp add: fan_in_finished_def fan_in_def sem_defs init_world_def Let_def fun_eq_iff)

theorem pipe_set_rewrites_terminal_witness:
  "final fan_in_finished 2 = None \<and> pipes_pending fan_in_finished 2 = 3 # [4] \<and>
   kind fan_in_finished 2 = Inner \<and> reg_id fan_in_finished 2 \<noteq> None \<and>
   (\<exists>w2 w4. d_next_raw (sem_at 2) 3
        (fan_in_finished\<lparr>pipes_pending := (pipes_pending fan_in_finished)(2 := [4])\<rparr>)
           = Ok (Some (True, False, [PInt 7])) w2 \<and>
      next_raw (sem_at 2) 2 fan_in_finished
        = Ok (Some (False, True, [PClass Finished, PExc Finished [PInt 7], PNone])) w4 \<and>
      map_of (pipes w4 2) 3 = None \<and>
      pipes_pending w4 2 = [4] \<and>
      final w4 2 = None \<and>
      reg_result w4 2 = None)"
proof -
  let ?w = "fan_in_finished\<lparr>pipes_pending := (pipes_pending fan_in_finished)(2 := [4])\<rparr>"
  have a: "final fan_in_finished 2 = None" "pipes_pending fan_in_finished 2 = 3 # [4]"
    and k: "kind fan_in_finished 2 = Inner" "reg_id fan_in_finished 2 \<noteq> None"
    by (simp_all add: fan_in_finished_eq init_world_def)
  have b: "d_next_raw (sem_at 2) 3 ?w = Ok (Some (True, False, [PInt 7])) ?w"
    by (simp add: fan_in_finished_eq init_world_def next_raw_def raw_def
          channel_next_raw_def thn_def fun_eq_iff)
  have c: "pipes_pending ?w 2 = [4]" "final ?w 2 = None" "reg_result ?w 2 = None"
    by (simp_all add: fan_in_finished_eq init_world_def)
  from pipe_set_rewrites_terminal [OF a b] a k b c
  show ?thesis by auto
qed



section \<open>Any\<close>

lemma defer_all_same: "same_objects w (defer_all cbs s w)"
proof (induction cbs arbitrary: w)
  case Nil
  show ?case by (simp add: same_objects_def)
next
  case (Cons cb cbs)
  let ?w1 = "(case snd cb of
          CallqueueAdd m \<Rightarrow>
            callqueue_add (case m of AnyCallbackM a \<Rightarrow> AnyCallback a s
                           | StepM t \<Rightarrow> Step t s) w
        | External k \<Rightarrow> w\<lparr>calls := calls w @ [(cb, s)]\<rparr>
        | _ \<Rightarrow> w)"
  have 1: "?w1 = w\<lparr>callqueue := callqueue ?w1, event := event ?w1, calls := calls ?w1\<rparr>"
    by (cases "snd cb") (simp_all add: callqueue_add_def)
  from Cons.IH [of ?w1]
  have 2: "defer_all cbs s ?w1 = ?w1\<lparr>callqueue := callqueue (defer_all cbs s ?w1),
      event := event (defer_all cbs s ?w1), calls := calls (defer_all cbs s ?w1)\<rparr>"
    by (simp add: same_objects_def)
  have "defer_all cbs s ?w1 = w\<lparr>callqueue := callqueue (defer_all cbs s ?w1),
      event := event (defer_all cbs s ?w1), calls := calls (defer_all cbs s ?w1)\<rparr>"
    by (subst 2, subst 1) simp
  then show ?case by (simp add: same_objects_def)
qed

lemma call_all_deferred:
  "list_all is_deferred cbs \<Longrightarrow>
   call_all (sem_at (Suc n)) cbs s w = Ok () (defer_all cbs s w)"
proof (induction cbs arbitrary: w)
  case Nil
  show ?case by simp
next
  case (Cons cb cbs)
  from Cons.prems have d: "is_deferred cb" and rest: "list_all is_deferred cbs" by simp_all
  from d show ?case
    by (cases "snd cb")
       (simp_all add: is_deferred_def call_def thn_def Cons.IH [OF rest])
qed


lemma defer_all_fields [simp]:
  "kind (defer_all cbs s w) = kind w"
  "reg_id (defer_all cbs s w) = reg_id w"
  "reg_result (defer_all cbs s w) = reg_result w"
  "message_callbacks (defer_all cbs s w) = message_callbacks w"
  "finish_callbacks (defer_all cbs s w) = finish_callbacks w"
  "queue (defer_all cbs s w) = queue w"
  "any_callbacks (defer_all cbs s w) = any_callbacks w"
  "include_source (defer_all cbs s w) = include_source w"
  "any_final (defer_all cbs s w) = any_final w"
  "final (defer_all cbs s w) = final w"
  "stack (defer_all cbs s w) = stack w"
  "gen (defer_all cbs s w) = gen w"
  "output (defer_all cbs s w) = output w"
  "outer (defer_all cbs s w) = outer w"
  "fresh (defer_all cbs s w) = fresh w"
proof -
  have e: "defer_all cbs s w = w\<lparr>callqueue := callqueue (defer_all cbs s w),
      event := event (defer_all cbs s w), calls := calls (defer_all cbs s w)\<rparr>"
    using defer_all_same [of w cbs s] by (simp add: same_objects_def)
  show "kind (defer_all cbs s w) = kind w" by (subst e) simp
  show "reg_id (defer_all cbs s w) = reg_id w" by (subst e) simp
  show "reg_result (defer_all cbs s w) = reg_result w" by (subst e) simp
  show "message_callbacks (defer_all cbs s w) = message_callbacks w" by (subst e) simp
  show "finish_callbacks (defer_all cbs s w) = finish_callbacks w" by (subst e) simp
  show "queue (defer_all cbs s w) = queue w" by (subst e) simp
  show "any_callbacks (defer_all cbs s w) = any_callbacks w" by (subst e) simp
  show "include_source (defer_all cbs s w) = include_source w" by (subst e) simp
  show "any_final (defer_all cbs s w) = any_final w" by (subst e) simp
  show "final (defer_all cbs s w) = final w" by (subst e) simp
  show "stack (defer_all cbs s w) = stack w" by (subst e) simp
  show "gen (defer_all cbs s w) = gen w" by (subst e) simp
  show "output (defer_all cbs s w) = output w" by (subst e) simp
  show "outer (defer_all cbs s w) = outer w" by (subst e) simp
  show "fresh (defer_all cbs s w) = fresh w" by (subst e) simp
qed

lemma signal_activity_deferred:
  assumes "deferred_callbacks_only s w"
  shows "signal_activity (sem_at (Suc n)) s r w =
     Ok () (let w1 = defer_all (message_callbacks w s) s
                       (w\<lparr>reg_result := (reg_result w)(s := r),
                          reg_id := (reg_id w)(s := Some (fresh w)),
                          fresh := Suc (fresh w),
                          message_callbacks := (message_callbacks w)(s := [])\<rparr>)
            in if r = None then w1
               else defer_all (finish_callbacks w s) s
                      (w1\<lparr>finish_callbacks := (finish_callbacks w1)(s := [])\<rparr>))"
  using assms
  by (cases r)
     (simp_all add: signal_activity_def deferred_callbacks_only_def call_all_deferred
        thn_def Let_def)

lemma discard_others_same:
  "discard_others source cbs w
     = w\<lparr>message_callbacks := message_callbacks (discard_others source cbs w)\<rparr>"
proof (induction cbs arbitrary: w)
  case Nil
  show ?case by (simp add: discard_others_def)
next
  case (Cons x cbs)
  obtain other h where x: "x = (other, h)" by (cases x)
  let ?w1 = "if other \<noteq> source then discard_message_callback other h w else w"
  have 1: "?w1 = w\<lparr>message_callbacks := message_callbacks ?w1\<rparr>"
    by (cases h) (simp_all add: discard_message_callback_def)
  have u: "discard_others source (x # cbs) w = discard_others source cbs ?w1"
    by (simp add: discard_others_def x)
  from Cons.IH [of ?w1]
  have 2: "discard_others source cbs ?w1
     = ?w1\<lparr>message_callbacks := message_callbacks (discard_others source cbs ?w1)\<rparr>" .
  have "discard_others source cbs ?w1
     = w\<lparr>message_callbacks := message_callbacks (discard_others source cbs ?w1)\<rparr>"
    by (subst 2, subst 1) simp
  with u show ?case by simp
qed

lemma discard_others_fields [simp]:
  "reg_id (discard_others source cbs w) = reg_id w"
  "reg_result (discard_others source cbs w) = reg_result w"
  "finish_callbacks (discard_others source cbs w) = finish_callbacks w"
  "any_callbacks (discard_others source cbs w) = any_callbacks w"
  "include_source (discard_others source cbs w) = include_source w"
  "any_final (discard_others source cbs w) = any_final w"
  "fresh (discard_others source cbs w) = fresh w"
proof -
  note e = discard_others_same [of source cbs w]
  show "reg_id (discard_others source cbs w) = reg_id w" by (subst e) simp
  show "reg_result (discard_others source cbs w) = reg_result w" by (subst e) simp
  show "finish_callbacks (discard_others source cbs w) = finish_callbacks w" by (subst e) simp
  show "any_callbacks (discard_others source cbs w) = any_callbacks w" by (subst e) simp
  show "include_source (discard_others source cbs w) = include_source w" by (subst e) simp
  show "any_final (discard_others source cbs w) = any_final w" by (subst e) simp
  show "fresh (discard_others source cbs w) = fresh w" by (subst e) simp
qed

lemma discard_others_subset:
  "set (message_callbacks (discard_others source cbs w) s) \<subseteq> set (message_callbacks w s)"
proof (induction cbs arbitrary: w)
  case Nil
  show ?case by (simp add: discard_others_def)
next
  case (Cons x cbs)
  obtain other h where x: "x = (other, h)" by (cases x)
  let ?w1 = "if other \<noteq> source then discard_message_callback other h w else w"
  have u: "discard_others source (x # cbs) w = discard_others source cbs ?w1"
    by (simp add: discard_others_def x)
  have "set (message_callbacks ?w1 s) \<subseteq> set (message_callbacks w s)"
    by (cases h) (auto simp add: discard_message_callback_def)
  with Cons.IH [of ?w1] u show ?case by auto
qed

lemma discard_others_removed:
  assumes "(other, HCallback cb) \<in> set cbs" and "other \<noteq> source"
  shows "cb \<notin> set (message_callbacks (discard_others source cbs w) other)"
  using assms
proof (induction cbs arbitrary: w)
  case Nil
  then show ?case by simp
next
  case (Cons x cbs)
  obtain o' h where x: "x = (o', h)" by (cases x)
  let ?w1 = "if o' \<noteq> source then discard_message_callback o' h w else w"
  have u: "discard_others source (x # cbs) w = discard_others source cbs ?w1"
    by (simp add: discard_others_def x)
  show ?case
  proof (cases "x = (other, HCallback cb)")
    case True
    with x Cons.prems have "cb \<notin> set (message_callbacks ?w1 other)"
      by (auto simp add: discard_message_callback_def)
    with discard_others_subset [of source cbs ?w1 other] u show ?thesis by auto
  next
    case False
    with Cons.prems have "(other, HCallback cb) \<in> set cbs" by simp
    from Cons.IH [OF this Cons.prems(2), of ?w1] u show ?thesis by simp
  qed
qed


lemma deferred_after_discard:
  "deferred_callbacks_only a w \<Longrightarrow> deferred_callbacks_only a (discard_others source cbs w)"
  using discard_others_subset [of source cbs w a]
  by (auto simp add: deferred_callbacks_only_def list_all_iff)


lemma any_created_fields:
  "callqueue any_created = [AnyInit 5 [PRef 2, PRef 3]]"
  "kind any_created 5 = AnyStream"
  "reg_result any_created 5 = None"
  by (simp_all add: any_created_def sem_defs init_world_def Let_def)

lemma any_armed_fields:
  "any_callbacks any_armed 5 = Some [(2, HCallback (6, CallqueueAdd (AnyCallbackM 5))), (3, HNone)]"
  "message_callbacks any_armed 2 = [(6, CallqueueAdd (AnyCallbackM 5))]"
  "message_callbacks any_armed 5 = []"
  "finish_callbacks any_armed 5 = []"
  "include_source any_armed 5"
  by (simp_all add: any_armed_def any_created_def sem_defs init_world_def Let_def)



section \<open>run\<close>

lemma world_of_SomeD:
  "map_option f (world_of r) = Some y \<Longrightarrow> \<exists>w. r = Ok () w \<and> f w = y"
  by (cases r) (auto simp add: world_of_def)

lemma run_loop_has_result:
  "run_loop (sem_at n) main w = Ok u w' \<Longrightarrow> has_result main w'"
proof (induction n arbitrary: w)
  case 0
  then show ?case
    by (cases "has_result main w")
       (auto simp add: run_loop_def thn_def split: res.splits)
next
  case (Suc n)
  show ?case
  proof (cases "has_result main w")
    case True
    with Suc.prems show ?thesis by (simp add: run_loop_def)
  next
    case False
    with Suc.prems obtain w2 where
      "run_loop (sem_at n) main w2 = Ok u w'"
      by (auto simp add: run_loop_def thn_def split: res.splits)
    then show ?thesis by (rule Suc.IH)
  qed
qed



end
